theory Spec2Isabelle
  imports Main
begin

section \<open>kitty-js: a shallow embedding of \<open>src/index.ts\<close>\<close>

text \<open>
  Every exported function of \<open>src/index.ts\<close> issues one \<open>axios.get\<close>, chains one
  \<open>.then\<close> handler on the returned promise and, for \<open>randomImage\<close>, one \<open>.catch\<close>
  handler. The embedding keeps that shape: the value that travels through the promise
  chain is a JavaScript value, a rejection is the left summand of a sum type, and the
  requests handed to \<open>axios.get\<close> and the values handed to \<open>console.error\<close> are
  recorded beside the outcome.
\<close>

subsection \<open>Values the server can send\<close>

text \<open>
  The \<open>Breed[]\<close> annotation on the response body is erased by the compiler and
  nothing validates the body at run time, so the body is modelled as an untyped
  JavaScript value.
  \<^item> \<open>JNum n\<close> is a number that is an integer; the embedding speaks about safe integers
    (\<open>safe_integer\<close> below), which JavaScript represents exactly and prints in plain
    decimal. Fractions, \<open>NaN\<close> and the infinities are outside the embedding.
  \<^item> \<open>JObj kvs\<close> is a plain object with the own properties \<open>kvs\<close> (distinct keys).
  \<^item> \<open>JUndefined\<close> is what reading a missing element or property yields.
\<close>

datatype json =
    JUndefined
  | JNull
  | JBool bool
  | JNum int
  | JStr string
  | JArr "json list"
  | JObj "(string \<times> json) list"

text \<open>What a promise can be rejected with: \<open>new Error(msg)\<close>, the \<open>TypeError\<close> the
  engine throws when a property of \<open>null\<close> or \<open>undefined\<close> is read, and the error
  axios rejects with when the transport fails (its payload is opaque here).\<close>

datatype js_error =
    Error string
  | TypeError
  | AxiosError string

text \<open>\<open>Number.isSafeInteger\<close>.\<close>

definition safe_integer :: "int \<Rightarrow> bool" where
  "safe_integer n \<longleftrightarrow> - (2 ^ 53 - 1) \<le> n \<and> n \<le> 2 ^ 53 - 1"

text \<open>JavaScript's \<open>ToBoolean\<close>, the test an \<open>if (v)\<close> performs.\<close>

fun truthy :: "json \<Rightarrow> bool" where
  "truthy JUndefined = False"
| "truthy JNull = False"
| "truthy (JBool b) = b"
| "truthy (JNum n) = (n \<noteq> 0)"
| "truthy (JStr s) = (s \<noteq> [])"
| "truthy (JArr xs) = True"
| "truthy (JObj kvs) = True"

text \<open>Reading an own property of a plain object: a missing key reads as \<open>undefined\<close>.\<close>

definition lookup_prop :: "(string \<times> json) list \<Rightarrow> string \<Rightarrow> json" where
  "lookup_prop kvs k = (case map_of kvs k of Some v \<Rightarrow> v | None \<Rightarrow> JUndefined)"

text \<open>
  The member access \<open>v[0]\<close>. On \<open>undefined\<close> and \<open>null\<close> it throws; an array yields
  its first element or \<open>undefined\<close>; a string yields its first character as a string; a
  plain object yields its property \<open>"0"\<close>; a number or boolean has no such property.
\<close>

fun index0 :: "json \<Rightarrow> js_error + json" where
  "index0 JUndefined = Inl TypeError"
| "index0 JNull = Inl TypeError"
| "index0 (JArr []) = Inr JUndefined"
| "index0 (JArr (x # xs)) = Inr x"
| "index0 (JStr []) = Inr JUndefined"
| "index0 (JStr (c # cs)) = Inr (JStr [c])"
| "index0 (JObj kvs) = Inr (lookup_prop kvs ''0'')"
| "index0 (JBool b) = Inr JUndefined"
| "index0 (JNum n) = Inr JUndefined"

text \<open>
  The member access \<open>v.k\<close> for the property names the program reads (\<open>url\<close>,
  \<open>description\<close>, \<open>reference_image_id\<close>, \<open>child_friendly\<close>, \<open>life_span\<close>,
  \<open>temperament\<close>, \<open>intelligence\<close>, \<open>affection_level\<close>): none of them is a built-in
  property of arrays, strings, numbers or booleans, nor inherited by plain objects.
\<close>

fun read_prop :: "json \<Rightarrow> string \<Rightarrow> js_error + json" where
  "read_prop JUndefined k = Inl TypeError"
| "read_prop JNull k = Inl TypeError"
| "read_prop (JObj kvs) k = Inr (lookup_prop kvs k)"
| "read_prop (JArr xs) k = Inr JUndefined"
| "read_prop (JStr s) k = Inr JUndefined"
| "read_prop (JBool b) k = Inr JUndefined"
| "read_prop (JNum n) k = Inr JUndefined"

subsection \<open>Template literals\<close>

text \<open>
  A number inside a template literal. For a safe integer JavaScript prints the decimal
  digits, with a leading minus sign for a negative number, and that is what
  \<open>number_to_string\<close> computes. Beyond the safe integers JavaScript rounds the digits
  and, from \<open>1e21\<close>, switches to exponent notation; \<open>number_to_string\<close> does not
  follow it there, so every statement below that depends on a printed number assumes
  \<open>safe_integer\<close>.
\<close>

definition digit_char :: "nat \<Rightarrow> char" where
  "digit_char d = ''0123456789'' ! d"

fun digits :: "nat \<Rightarrow> string" where
  "digits n = (if n < 10 then [digit_char n] else digits (n div 10) @ [digit_char (n mod 10)])"

definition number_to_string :: "int \<Rightarrow> string" where
  "number_to_string n = (if n < 0 then CHR ''-'' # digits (nat (- n)) else digits (nat n))"

text \<open>\<open>Array.prototype.join(",")\<close> on the already converted elements.\<close>

fun join_comma :: "string list \<Rightarrow> string" where
  "join_comma [] = []"
| "join_comma [s] = s"
| "join_comma (s # t # ss) = s @ '','' @ join_comma (t # ss)"

text \<open>The conversions of the elements of an array, in order: the first one that
  throws decides the outcome.\<close>

fun collect_strings :: "(js_error + string) list \<Rightarrow> js_error + string list" where
  "collect_strings [] = Inr []"
| "collect_strings (r # rs) =
     (case r of
        Inl e \<Rightarrow> Inl e
      | Inr t \<Rightarrow> (case collect_strings rs of Inl e \<Rightarrow> Inl e | Inr ts \<Rightarrow> Inr (t # ts)))"

text \<open>
  \<open>ToString\<close>, the conversion a template literal applies to an interpolated value.
  \<^item> An array is converted by \<open>Array.prototype.join\<close>: its elements are converted in
    order and joined with commas, \<open>null\<close> and \<open>undefined\<close> elements giving the
    empty string.
  \<^item> A plain object is converted by the first callable of its \<open>toString\<close> and
    \<open>valueOf\<close> that returns a primitive. Without an own \<open>toString\<close> property that
    is \<open>Object.prototype.toString\<close>, which gives \<open>[object Object]\<close>. An own
    \<open>toString\<close> property holds a value sent by the server, which is never callable;
    \<open>valueOf\<close> is then either an own property, not callable either, or the inherited
    one, which returns the object itself; so the conversion throws a \<open>TypeError\<close>.
  \<^item> A number is printed by \<open>number_to_string\<close>, exact for safe integers.
\<close>

fun to_string :: "json \<Rightarrow> js_error + string" where
  "to_string JUndefined = Inr ''undefined''"
| "to_string JNull = Inr ''null''"
| "to_string (JBool b) = Inr (if b then ''true'' else ''false'')"
| "to_string (JNum n) = Inr (number_to_string n)"
| "to_string (JStr s) = Inr s"
| "to_string (JArr xs) =
     (case collect_strings
             (map (\<lambda>x. if x = JUndefined \<or> x = JNull then Inr [] else to_string x) xs) of
        Inl e \<Rightarrow> Inl e
      | Inr ts \<Rightarrow> Inr (join_comma ts))"
| "to_string (JObj kvs) =
     (case map_of kvs ''toString'' of
        None \<Rightarrow> Inr ''[object Object]''
      | Some m \<Rightarrow> Inl TypeError)"

subsection \<open>Configuration, requests and promises\<close>

text \<open>The three constants imported from \<open>./constants\<close>. That module is not part of
  the sources at hand, so the constants are a parameter of every operation.\<close>

record config =
  BASE_URL :: string
  API_KEY :: string
  CDN_URL :: string

text \<open>What \<open>axios.get(url, {headers})\<close> is called with.\<close>

record request =
  url :: string
  headers :: "(string \<times> string) list"

text \<open>The part of an \<open>AxiosResponse\<close> the program reads.\<close>

record axios_response =
  data :: json

text \<open>The transport: what \<open>axios.get\<close> settles with for a request. \<open>Inl\<close> is a
  rejection (DNS, timeout, non-2xx status, ...), \<open>Inr\<close> a response.\<close>

type_synonym transport = "request \<Rightarrow> js_error + axios_response"

text \<open>
  A finished asynchronous call: the requests it handed to \<open>axios.get\<close>, the values it
  handed to \<open>console.error\<close>, and how its promise settled (\<open>Inl\<close> rejected with a
  reason, \<open>Inr\<close> fulfilled with a value).
\<close>

record 'a promise =
  sent :: "request list"
  logged :: "js_error list"
  settled :: "js_error + 'a"

definition axios_get :: "transport \<Rightarrow> request \<Rightarrow> axios_response promise" where
  "axios_get net r = \<lparr>sent = [r], logged = [], settled = net r\<rparr>"

text \<open>\<open>p.then(f)\<close>: a rejection passes through; otherwise the handler runs on the value,
  and what it returns fulfils the new promise, what it throws rejects it.\<close>

definition then_p :: "'a promise \<Rightarrow> ('a \<Rightarrow> js_error + 'b) \<Rightarrow> 'b promise" where
  "then_p p f =
     \<lparr>sent = sent p, logged = logged p,
      settled = (case settled p of Inl e \<Rightarrow> Inl e | Inr v \<Rightarrow> f v)\<rparr>"

text \<open>\<open>p.catch((err) => console.error(err))\<close>: a fulfilment passes through; a rejection
  is logged and the new promise is fulfilled with what \<open>console.error\<close> returns, which
  is \<open>undefined\<close>.\<close>

definition catch_console_error :: "json promise \<Rightarrow> json promise" where
  "catch_console_error p =
     (case settled p of
        Inl err \<Rightarrow> \<lparr>sent = sent p, logged = logged p @ [err], settled = Inr JUndefined\<rparr>
      | Inr v \<Rightarrow> p)"

subsection \<open>The exported operations\<close>

definition randomImage :: "config \<Rightarrow> transport \<Rightarrow> json promise" where
  "randomImage cfg net =
     catch_console_error
       (then_p (axios_get net \<lparr>url = BASE_URL cfg @ ''images/search'', headers = []\<rparr>)
          (\<lambda>res. case index0 (data res) of Inl e \<Rightarrow> Inl e | Inr x \<Rightarrow> read_prop x ''url''))"

text \<open>The parameter \<open>limit: number = 30\<close>: \<open>None\<close> is a call without the argument.\<close>

definition catBreeds :: "config \<Rightarrow> transport \<Rightarrow> int option \<Rightarrow> json promise" where
  "catBreeds cfg net limit_arg =
     (let limit = (case limit_arg of None \<Rightarrow> 30 | Some n \<Rightarrow> n) in
      then_p
        (axios_get net
           \<lparr>url = BASE_URL cfg @ ''breeds?limit='' @ number_to_string limit,
            headers = [(''X-API-Key'', API_KEY cfg)]\<rparr>)
        (\<lambda>res. Inr (data res)))"

text \<open>The parameter \<open>query: string = ""\<close>: \<open>None\<close> is a call without the argument.\<close>

definition catBreed :: "config \<Rightarrow> transport \<Rightarrow> string option \<Rightarrow> json promise" where
  "catBreed cfg net query_arg =
     (let query = (case query_arg of None \<Rightarrow> [] | Some q \<Rightarrow> q) in
      then_p
        (axios_get net
           \<lparr>url = BASE_URL cfg @ ''breeds/search?q='' @ query,
            headers = [(''X-API-Key'', API_KEY cfg)]\<rparr>)
        (\<lambda>res. case index0 (data res) of
             Inl e \<Rightarrow> Inl e
           | Inr first \<Rightarrow>
               if truthy first then Inr first
               else Inl (Error ''No such breed found!'')))"

definition catBreedDescription :: "config \<Rightarrow> transport \<Rightarrow> string \<Rightarrow> json promise" where
  "catBreedDescription cfg net query =
     then_p
       (axios_get net
          \<lparr>url = BASE_URL cfg @ ''breeds/search?q='' @ query,
           headers = [(''X-API-Key'', API_KEY cfg)]\<rparr>)
       (\<lambda>res. case index0 (data res) of
            Inl e \<Rightarrow> Inl e
          | Inr first \<Rightarrow>
              if truthy first then read_prop first ''description''
              else Inl (Error ''No such breed found!''))"

definition catBreedImage :: "config \<Rightarrow> transport \<Rightarrow> string \<Rightarrow> json promise" where
  "catBreedImage cfg net query =
     then_p
       (axios_get net
          \<lparr>url = BASE_URL cfg @ ''breeds/search?q='' @ query,
           headers = [(''X-API-Key'', API_KEY cfg)]\<rparr>)
       (\<lambda>res. case index0 (data res) of
            Inl e \<Rightarrow> Inl e
          | Inr first \<Rightarrow>
              if truthy first then
                (case read_prop first ''reference_image_id'' of
                   Inl e \<Rightarrow> Inl e
                 | Inr ident \<Rightarrow>
                     (case to_string ident of
                        Inl e \<Rightarrow> Inl e
                      | Inr t \<Rightarrow> Inr (JStr (CDN_URL cfg @ t @ ''.jpg''))))
              else Inl (Error ''No such breed found!''))"

definition catBreedChildFriendliness :: "config \<Rightarrow> transport \<Rightarrow> string \<Rightarrow> json promise" where
  "catBreedChildFriendliness cfg net query =
     then_p
       (axios_get net
          \<lparr>url = BASE_URL cfg @ ''breeds/search?q='' @ query,
           headers = [(''X-API-Key'', API_KEY cfg)]\<rparr>)
       (\<lambda>res. case index0 (data res) of
            Inl e \<Rightarrow> Inl e
          | Inr first \<Rightarrow>
              if truthy first then read_prop first ''child_friendly''
              else Inl (Error ''No such breed found!''))"

definition breedLifeSpan :: "config \<Rightarrow> transport \<Rightarrow> string \<Rightarrow> json promise" where
  "breedLifeSpan cfg net query =
     then_p
       (axios_get net
          \<lparr>url = BASE_URL cfg @ ''breeds/search?q='' @ query,
           headers = [(''X-API-Key'', API_KEY cfg)]\<rparr>)
       (\<lambda>res. case index0 (data res) of
            Inl e \<Rightarrow> Inl e
          | Inr first \<Rightarrow>
              if truthy first then read_prop first ''life_span''
              else Inl (Error ''No such breed found!''))"

definition breedTemperament :: "config \<Rightarrow> transport \<Rightarrow> string \<Rightarrow> json promise" where
  "breedTemperament cfg net query =
     then_p
       (axios_get net
          \<lparr>url = BASE_URL cfg @ ''breeds/search?q='' @ query,
           headers = [(''X-API-Key'', API_KEY cfg)]\<rparr>)
       (\<lambda>res. case index0 (data res) of
            Inl e \<Rightarrow> Inl e
          | Inr first \<Rightarrow>
              if truthy first then read_prop first ''temperament''
              else Inl (Error ''No such breed found!''))"

definition breedIntelligence :: "config \<Rightarrow> transport \<Rightarrow> string \<Rightarrow> json promise" where
  "breedIntelligence cfg net query =
     then_p
       (axios_get net
          \<lparr>url = BASE_URL cfg @ ''breeds/search?q='' @ query,
           headers = [(''X-API-Key'', API_KEY cfg)]\<rparr>)
       (\<lambda>res. case index0 (data res) of
            Inl e \<Rightarrow> Inl e
          | Inr first \<Rightarrow>
              if truthy first then read_prop first ''intelligence''
              else Inl (Error ''No such breed found!''))"

definition breedAffection :: "config \<Rightarrow> transport \<Rightarrow> string \<Rightarrow> json promise" where
  "breedAffection cfg net query =
     then_p
       (axios_get net
          \<lparr>url = BASE_URL cfg @ ''breeds/search?q='' @ query,
           headers = [(''X-API-Key'', API_KEY cfg)]\<rparr>)
       (\<lambda>res. case index0 (data res) of
            Inl e \<Rightarrow> Inl e
          | Inr first \<Rightarrow>
              if truthy first then read_prop first ''affection_level''
              else Inl (Error ''No such breed found!''))"

subsection \<open>The requests and projections the specification names\<close>

text \<open>The lookup request of the specification: \<open>GET <baseUrl>breeds/search?q=<query>\<close>
  with the header \<open>X-API-Key: <credential>\<close>.\<close>

definition breeds_search_request :: "config \<Rightarrow> string \<Rightarrow> request" where
  "breeds_search_request cfg query =
     \<lparr>url = BASE_URL cfg @ ''breeds/search?q='' @ query,
      headers = [(''X-API-Key'', API_KEY cfg)]\<rparr>"

text \<open>The listing request of the specification: \<open>GET <baseUrl>breeds?limit=N\<close> with the
  header \<open>X-API-Key: <credential>\<close>.\<close>

definition breeds_listing_request :: "config \<Rightarrow> int \<Rightarrow> request" where
  "breeds_listing_request cfg n =
     \<lparr>url = BASE_URL cfg @ ''breeds?limit='' @ number_to_string n,
      headers = [(''X-API-Key'', API_KEY cfg)]\<rparr>"

text \<open>The random-image request of the specification: \<open>GET <baseUrl>images/search\<close>, no
  parameters, no header.\<close>

definition images_search_request :: "config \<Rightarrow> request" where
  "images_search_request cfg = \<lparr>url = BASE_URL cfg @ ''images/search'', headers = []\<rparr>"

text \<open>\<open>project(field)\<close> of the specification: the named field of a record, \<open>undefined\<close>
  when the value has no such field.\<close>

fun field :: "string \<Rightarrow> json \<Rightarrow> json" where
  "field k (JObj kvs) = lookup_prop kvs k"
| "field k v = JUndefined"


text \<open>The range the specification gives for a trait score: the call returned an
  integer between 0 and 5.\<close>

definition returns_score_0_to_5 :: "js_error + json \<Rightarrow> bool" where
  "returns_score_0_to_5 r =
     (case r of
        Inl e \<Rightarrow> False
      | Inr v \<Rightarrow> (case v of JNum n \<Rightarrow> 0 \<le> n \<and> n \<le> 5 | _ \<Rightarrow> False))"

subsection \<open>Concrete services for the examples\<close>

definition example_config :: config where
  "example_config =
     \<lparr>BASE_URL = ''https://api.thecatapi.com/v1/'',
      API_KEY = ''secret'',
      CDN_URL = ''https://cdn2.thecatapi.com/images/''\<rparr>"

text \<open>A mock service that answers every request with the same body.\<close>

definition mock_service :: "json \<Rightarrow> transport" where
  "mock_service body = (\<lambda>r. Inr \<lparr>data = body\<rparr>)"

text \<open>A transport on which every request fails.\<close>

definition failing_transport :: "js_error \<Rightarrow> transport" where
  "failing_transport err = (\<lambda>r. Inl err)"

definition ragdoll :: json where
  "ragdoll =
     JObj [(''name'', JStr ''Ragdoll''),
           (''description'', JStr ''Ragdolls love their people.''),
           (''temperament'', JStr ''Affectionate, Gentle''),
           (''life_span'', JStr ''12 - 17''),
           (''child_friendly'', JNum 4),
           (''intelligence'', JNum 3),
           (''affection_level'', JNum 5),
           (''reference_image_id'', JStr ''abc123'')]"

definition siamese :: json where
  "siamese =
     JObj [(''name'', JStr ''Siamese''),
           (''description'', JStr ''Siamese cats talk a lot.''),
           (''temperament'', JStr ''Active, Agile''),
           (''life_span'', JStr ''12 - 15''),
           (''child_friendly'', JNum 2),
           (''intelligence'', JNum 5),
           (''affection_level'', JNum 1),
           (''reference_image_id'', JStr ''xyz789'')]"

text \<open>A record whose trait scores lie outside the five-point scale.\<close>

definition off_scale_breed :: json where
  "off_scale_breed =
     JObj [(''name'', JStr ''Tiger''),
           (''child_friendly'', JNum 7),
           (''intelligence'', JNum 6),
           (''affection_level'', JNum (- 1))]"


section \<open>Helper facts\<close>

lemmas accessor_defs =
  catBreed_def catBreedDescription_def catBreedImage_def catBreedChildFriendliness_def
  breedLifeSpan_def breedTemperament_def breedIntelligence_def breedAffection_def

lemmas chain_defs = then_p_def axios_get_def


lemma falsy_iff:
  "\<not> truthy v \<longleftrightarrow> v = JUndefined \<or> v = JNull \<or> v = JBool False \<or> v = JNum 0 \<or> v = JStr []"
  by (cases v) auto

lemma catBreed_default_query: "catBreed cfg net None = catBreed cfg net (Some [])"
  by (simp add: catBreed_def)

lemma catBreeds_default_limit: "catBreeds cfg net None = catBreeds cfg net (Some 30)"
  by (simp add: catBreeds_def)

lemma number_to_string_30: "number_to_string 30 = ''30''"
  by (simp add: number_to_string_def digit_char_def)

section \<open>Not found\<close>

text \<open>
  C1. When the server answers the search request with an empty sequence, each of the
  eight breed-lookup operations (\<open>catBreed\<close>, \<open>catBreedDescription\<close>, \<open>catBreedImage\<close>,
  \<open>catBreedChildFriendliness\<close>, \<open>breedLifeSpan\<close>, \<open>breedTemperament\<close>,
  \<open>breedIntelligence\<close>, \<open>breedAffection\<close>) is rejected with an error whose message is
  exactly \<open>No such breed found!\<close>; being rejected, it returns no value.
\<close>

theorem empty_response_not_found:
  assumes "net (breeds_search_request cfg q) = Inr \<lparr>data = JArr []\<rparr>"
  shows "settled (catBreed cfg net (Some q)) = Inl (Error ''No such breed found!'')
       \<and> settled (catBreedDescription cfg net q) = Inl (Error ''No such breed found!'')
       \<and> settled (catBreedImage cfg net q) = Inl (Error ''No such breed found!'')
       \<and> settled (catBreedChildFriendliness cfg net q) = Inl (Error ''No such breed found!'')
       \<and> settled (breedLifeSpan cfg net q) = Inl (Error ''No such breed found!'')
       \<and> settled (breedTemperament cfg net q) = Inl (Error ''No such breed found!'')
       \<and> settled (breedIntelligence cfg net q) = Inl (Error ''No such breed found!'')
       \<and> settled (breedAffection cfg net q) = Inl (Error ''No such breed found!'')"
  using assms by (simp add: accessor_defs chain_defs breeds_search_request_def)

theorem empty_response_not_found_witness:
  "mock_service (JArr []) (breeds_search_request example_config ''zzz'')
     = Inr \<lparr>data = JArr []\<rparr>
   \<and> settled (catBreed example_config (mock_service (JArr [])) (Some ''zzz''))
     = Inl (Error ''No such breed found!'')
   \<and> settled (catBreedDescription example_config (mock_service (JArr [])) ''zzz'')
     = Inl (Error ''No such breed found!'')
   \<and> settled (catBreedImage example_config (mock_service (JArr [])) ''zzz'')
     = Inl (Error ''No such breed found!'')
   \<and> settled (catBreedChildFriendliness example_config (mock_service (JArr [])) ''zzz'')
     = Inl (Error ''No such breed found!'')
   \<and> settled (breedLifeSpan example_config (mock_service (JArr [])) ''zzz'')
     = Inl (Error ''No such breed found!'')
   \<and> settled (breedTemperament example_config (mock_service (JArr [])) ''zzz'')
     = Inl (Error ''No such breed found!'')
   \<and> settled (breedIntelligence example_config (mock_service (JArr [])) ''zzz'')
     = Inl (Error ''No such breed found!'')
   \<and> settled (breedAffection example_config (mock_service (JArr [])) ''zzz'')
     = Inl (Error ''No such breed found!'')"
  using empty_response_not_found [of "mock_service (JArr [])" example_config "''zzz''"]
  by (simp add: mock_service_def)

section \<open>The first record\<close>

text \<open>
  C2. When the response sequence starts with a record, \<open>catBreed\<close> returns that first
  record whatever follows it in the sequence, and every field accessor returns its
  projection of that same first record: the \<open>description\<close>, \<open>child_friendly\<close>,
  \<open>life_span\<close>, \<open>temperament\<close>, \<open>intelligence\<close> and \<open>affection_level\<close> fields as
  they are, and for \<open>catBreedImage\<close>, when the record's \<open>reference_image_id\<close> is a
  string as the \<open>Breed\<close> type declares, the image URL built from it.
\<close>

theorem first_record_returned:
  assumes "net (breeds_search_request cfg q) = Inr \<lparr>data = JArr (JObj kvs # rest)\<rparr>"
  shows "settled (catBreed cfg net (Some q)) = Inr (JObj kvs)
       \<and> settled (catBreedDescription cfg net q) = Inr (lookup_prop kvs ''description'')
       \<and> (lookup_prop kvs ''reference_image_id'' = JStr ident \<longrightarrow>
            settled (catBreedImage cfg net q) = Inr (JStr (CDN_URL cfg @ ident @ ''.jpg'')))
       \<and> settled (catBreedChildFriendliness cfg net q) = Inr (lookup_prop kvs ''child_friendly'')
       \<and> settled (breedLifeSpan cfg net q) = Inr (lookup_prop kvs ''life_span'')
       \<and> settled (breedTemperament cfg net q) = Inr (lookup_prop kvs ''temperament'')
       \<and> settled (breedIntelligence cfg net q) = Inr (lookup_prop kvs ''intelligence'')
       \<and> settled (breedAffection cfg net q) = Inr (lookup_prop kvs ''affection_level'')"
  using assms by (simp add: accessor_defs chain_defs breeds_search_request_def)

theorem first_record_returned_witness:
  "mock_service (JArr [ragdoll, siamese]) (breeds_search_request example_config ''ragd'')
     = Inr \<lparr>data = JArr [ragdoll, siamese]\<rparr>
   \<and> settled (catBreed example_config (mock_service (JArr [ragdoll, siamese])) (Some ''ragd''))
     = Inr ragdoll
   \<and> settled (catBreedDescription example_config (mock_service (JArr [ragdoll, siamese])) ''ragd'')
     = Inr (JStr ''Ragdolls love their people.'')
   \<and> field ''reference_image_id'' ragdoll = JStr ''abc123''
   \<and> settled (catBreedImage example_config (mock_service (JArr [ragdoll, siamese])) ''ragd'')
     = Inr (JStr ''https://cdn2.thecatapi.com/images/abc123.jpg'')
   \<and> settled (catBreedChildFriendliness example_config (mock_service (JArr [ragdoll, siamese])) ''ragd'')
     = Inr (JNum 4)
   \<and> settled (breedLifeSpan example_config (mock_service (JArr [ragdoll, siamese])) ''ragd'')
     = Inr (JStr ''12 - 17'')
   \<and> settled (breedTemperament example_config (mock_service (JArr [ragdoll, siamese])) ''ragd'')
     = Inr (JStr ''Affectionate, Gentle'')
   \<and> settled (breedIntelligence example_config (mock_service (JArr [ragdoll, siamese])) ''ragd'')
     = Inr (JNum 3)
   \<and> settled (breedAffection example_config (mock_service (JArr [ragdoll, siamese])) ''ragd'')
     = Inr (JNum 5)"
  using
    first_record_returned
      [of "mock_service (JArr [ragdoll, siamese])" example_config "''ragd''"
          "[(''name'', JStr ''Ragdoll''),
            (''description'', JStr ''Ragdolls love their people.''),
            (''temperament'', JStr ''Affectionate, Gentle''),
            (''life_span'', JStr ''12 - 17''),
            (''child_friendly'', JNum 4),
            (''intelligence'', JNum 3),
            (''affection_level'', JNum 5),
            (''reference_image_id'', JStr ''abc123'')]"
          "[siamese]" "''abc123''"]
  by (simp add: mock_service_def ragdoll_def lookup_prop_def example_config_def)

section \<open>Trait scores\<close>

text \<open>
  C3, as the specification states it, fails: the accessors apply no range check, so a
  record whose scores are 7, 6 and -1 makes \<open>catBreedChildFriendliness\<close>,
  \<open>breedIntelligence\<close> and \<open>breedAffection\<close> return 7, 6 and -1, none of them an
  integer between 0 and 5.
\<close>

theorem trait_score_range_counterexample:
  "\<not> returns_score_0_to_5
       (settled (catBreedChildFriendliness example_config
                   (mock_service (JArr [off_scale_breed])) ''tiger''))
   \<and> \<not> returns_score_0_to_5
       (settled (breedIntelligence example_config
                   (mock_service (JArr [off_scale_breed])) ''tiger''))
   \<and> \<not> returns_score_0_to_5
       (settled (breedAffection example_config
                   (mock_service (JArr [off_scale_breed])) ''tiger''))"
  by (simp add: accessor_defs chain_defs mock_service_def off_scale_breed_def
      lookup_prop_def returns_score_0_to_5_def)

text \<open>
  C3, amended. When the response sequence starts with a record, each numeric trait
  accessor returns that record's \<open>child_friendly\<close>, \<open>intelligence\<close> or
  \<open>affection_level\<close> field exactly as the server sent it, with no range check; when
  the response sequence is empty, each of them is rejected with \<open>No such breed found!\<close>
  and returns no value, so a returned zero never stands for "not found".
\<close>

theorem trait_score_passed_through:
  "(net (breeds_search_request cfg q) = Inr \<lparr>data = JArr (JObj kvs # rest)\<rparr> \<longrightarrow>
      settled (catBreedChildFriendliness cfg net q) = Inr (lookup_prop kvs ''child_friendly'')
    \<and> settled (breedIntelligence cfg net q) = Inr (lookup_prop kvs ''intelligence'')
    \<and> settled (breedAffection cfg net q) = Inr (lookup_prop kvs ''affection_level''))
   \<and> (net (breeds_search_request cfg q) = Inr \<lparr>data = JArr []\<rparr> \<longrightarrow>
      settled (catBreedChildFriendliness cfg net q) = Inl (Error ''No such breed found!'')
    \<and> settled (breedIntelligence cfg net q) = Inl (Error ''No such breed found!'')
    \<and> settled (breedAffection cfg net q) = Inl (Error ''No such breed found!''))"
  by (simp add: accessor_defs chain_defs breeds_search_request_def)

theorem trait_score_passed_through_witness:
  "mock_service (JArr [off_scale_breed, ragdoll]) (breeds_search_request example_config ''t'')
     = Inr \<lparr>data = JArr [off_scale_breed, ragdoll]\<rparr>
   \<and> settled (catBreedChildFriendliness example_config
                (mock_service (JArr [off_scale_breed, ragdoll])) ''t'') = Inr (JNum 7)
   \<and> settled (breedIntelligence example_config
                (mock_service (JArr [off_scale_breed, ragdoll])) ''t'') = Inr (JNum 6)
   \<and> settled (breedAffection example_config
                (mock_service (JArr [off_scale_breed, ragdoll])) ''t'') = Inr (JNum (- 1))
   \<and> mock_service (JArr []) (breeds_search_request example_config ''t'')
     = Inr \<lparr>data = JArr []\<rparr>
   \<and> settled (catBreedChildFriendliness example_config (mock_service (JArr [])) ''t'')
     = Inl (Error ''No such breed found!'')
   \<and> settled (breedIntelligence example_config (mock_service (JArr [])) ''t'')
     = Inl (Error ''No such breed found!'')
   \<and> settled (breedAffection example_config (mock_service (JArr [])) ''t'')
     = Inl (Error ''No such breed found!'')"
  using
    trait_score_passed_through
      [of "mock_service (JArr [off_scale_breed, ragdoll])" example_config "''t''"
          "[(''name'', JStr ''Tiger''), (''child_friendly'', JNum 7),
            (''intelligence'', JNum 6), (''affection_level'', JNum (- 1))]"
          "[ragdoll]"]
    trait_score_passed_through
      [of "mock_service (JArr [])" example_config "''t''" "[]" "[]"]
  by (simp add: mock_service_def off_scale_breed_def lookup_prop_def)

section \<open>Transport failures\<close>

text \<open>
  C4. When the transport rejects the request with an error, \<open>catBreeds\<close> (called
  with a safe integer limit), \<open>catBreed\<close> and the seven field accessors are rejected
  with that same error and log nothing, whereas \<open>randomImage\<close> catches the error,
  hands it to \<open>console.error\<close> and is fulfilled with \<open>undefined\<close>.
\<close>

theorem transport_failure_propagation:
  "(safe_integer n \<and> net (breeds_listing_request cfg n) = Inl err \<longrightarrow>
      settled (catBreeds cfg net (Some n)) = Inl err
    \<and> logged (catBreeds cfg net (Some n)) = [])
   \<and> (net (breeds_search_request cfg q) = Inl err \<longrightarrow>
      settled (catBreed cfg net (Some q)) = Inl err
    \<and> settled (catBreedDescription cfg net q) = Inl err
    \<and> settled (catBreedImage cfg net q) = Inl err
    \<and> settled (catBreedChildFriendliness cfg net q) = Inl err
    \<and> settled (breedLifeSpan cfg net q) = Inl err
    \<and> settled (breedTemperament cfg net q) = Inl err
    \<and> settled (breedIntelligence cfg net q) = Inl err
    \<and> settled (breedAffection cfg net q) = Inl err
    \<and> logged (catBreed cfg net (Some q)) = []
    \<and> logged (catBreedDescription cfg net q) = []
    \<and> logged (catBreedImage cfg net q) = []
    \<and> logged (catBreedChildFriendliness cfg net q) = []
    \<and> logged (breedLifeSpan cfg net q) = []
    \<and> logged (breedTemperament cfg net q) = []
    \<and> logged (breedIntelligence cfg net q) = []
    \<and> logged (breedAffection cfg net q) = [])
   \<and> (net (images_search_request cfg) = Inl err \<longrightarrow>
      settled (randomImage cfg net) = Inr JUndefined
    \<and> logged (randomImage cfg net) = [err])"
  by (simp add: accessor_defs catBreeds_def randomImage_def catch_console_error_def
      chain_defs breeds_search_request_def breeds_listing_request_def
      images_search_request_def)

theorem transport_failure_propagation_witness:
  "safe_integer 5
   \<and> failing_transport (AxiosError ''timeout'') (breeds_listing_request example_config 5)
     = Inl (AxiosError ''timeout'')
   \<and> failing_transport (AxiosError ''timeout'') (breeds_search_request example_config ''ragd'')
     = Inl (AxiosError ''timeout'')
   \<and> failing_transport (AxiosError ''timeout'') (images_search_request example_config)
     = Inl (AxiosError ''timeout'')
   \<and> settled (catBreeds example_config (failing_transport (AxiosError ''timeout'')) (Some 5))
     = Inl (AxiosError ''timeout'')
   \<and> settled (catBreed example_config (failing_transport (AxiosError ''timeout'')) (Some ''ragd''))
     = Inl (AxiosError ''timeout'')
   \<and> settled (catBreedImage example_config (failing_transport (AxiosError ''timeout'')) ''ragd'')
     = Inl (AxiosError ''timeout'')
   \<and> settled (breedAffection example_config (failing_transport (AxiosError ''timeout'')) ''ragd'')
     = Inl (AxiosError ''timeout'')
   \<and> settled (randomImage example_config (failing_transport (AxiosError ''timeout'')))
     = Inr JUndefined
   \<and> logged (randomImage example_config (failing_transport (AxiosError ''timeout'')))
     = [AxiosError ''timeout'']"
  using
    transport_failure_propagation
      [where net = "failing_transport (AxiosError ''timeout'')" and cfg = example_config
         and n = 5 and err = "AxiosError ''timeout''" and q = "''ragd''"]
  by (simp add: failing_transport_def safe_integer_def)

section \<open>The breed image\<close>

text \<open>
  C5. When the response sequence starts with a record whose \<open>reference_image_id\<close> is
  the string \<open>ident\<close>, \<open>catBreedImage\<close> returns the CDN URL prefix followed by
  \<open>ident\<close> followed by \<open>.jpg\<close>.
\<close>

theorem breed_image_url:
  assumes "net (breeds_search_request cfg q) = Inr \<lparr>data = JArr (JObj kvs # rest)\<rparr>"
    and "lookup_prop kvs ''reference_image_id'' = JStr ident"
  shows "settled (catBreedImage cfg net q) = Inr (JStr (CDN_URL cfg @ ident @ ''.jpg''))"
  using assms by (simp add: catBreedImage_def chain_defs breeds_search_request_def)

theorem breed_image_url_witness:
  "mock_service (JArr [ragdoll, siamese]) (breeds_search_request example_config ''ragd'')
     = Inr \<lparr>data = JArr [ragdoll, siamese]\<rparr>
   \<and> field ''reference_image_id'' ragdoll = JStr ''abc123''
   \<and> settled (catBreedImage example_config (mock_service (JArr [ragdoll, siamese])) ''ragd'')
     = Inr (JStr ''https://cdn2.thecatapi.com/images/abc123.jpg'')"
  using
    breed_image_url
      [of "mock_service (JArr [ragdoll, siamese])" example_config "''ragd''"
          "[(''name'', JStr ''Ragdoll''),
            (''description'', JStr ''Ragdolls love their people.''),
            (''temperament'', JStr ''Affectionate, Gentle''),
            (''life_span'', JStr ''12 - 17''),
            (''child_friendly'', JNum 4),
            (''intelligence'', JNum 3),
            (''affection_level'', JNum 5),
            (''reference_image_id'', JStr ''abc123'')]"
          "[siamese]" "''abc123''"]
  by (simp add: mock_service_def ragdoll_def lookup_prop_def example_config_def)

section \<open>Accessors as projections of the lookup\<close>




section \<open>The breed listing\<close>

text \<open>
  C7. \<open>catBreeds\<close> takes an integer limit, 30 when the argument is left out; for a
  safe integer \<open>n\<close> it sends exactly one request, the listing request whose \<open>limit\<close>
  query parameter is \<open>n\<close> printed in decimal with no check of its sign or size, and
  when the transport answers it returns the body of the response as it is.
\<close>

theorem catBreeds_passes_limit_and_body:
  assumes "safe_integer n"
  shows "catBreeds cfg net None = catBreeds cfg net (Some 30)
       \<and> sent (catBreeds cfg net (Some n))
           = [\<lparr>url = BASE_URL cfg @ ''breeds?limit='' @ number_to_string n,
               headers = [(''X-API-Key'', API_KEY cfg)]\<rparr>]
       \<and> settled (catBreeds cfg net (Some n))
           = (case net (breeds_listing_request cfg n) of
                Inl err \<Rightarrow> Inl err
              | Inr res \<Rightarrow> Inr (data res))"
  by (simp add: catBreeds_def chain_defs breeds_listing_request_def)

theorem catBreeds_passes_limit_and_body_witness:
  "safe_integer (- 5)
   \<and> sent (catBreeds example_config (mock_service (JArr [siamese, ragdoll])) None)
     = [\<lparr>url = ''https://api.thecatapi.com/v1/breeds?limit=30'',
         headers = [(''X-API-Key'', ''secret'')]\<rparr>]
   \<and> sent (catBreeds example_config (mock_service (JArr [siamese, ragdoll])) (Some (- 5)))
     = [\<lparr>url = ''https://api.thecatapi.com/v1/breeds?limit=-5'',
         headers = [(''X-API-Key'', ''secret'')]\<rparr>]
   \<and> settled (catBreeds example_config (mock_service (JArr [siamese, ragdoll])) (Some (- 5)))
     = Inr (JArr [siamese, ragdoll])"
proof -
  have h: "safe_integer (- 5)" and h30: "safe_integer 30"
    by (simp_all add: safe_integer_def)
  have d: "number_to_string 30 = ''30''" "number_to_string (- 5) = ''-5''"
    by (simp_all add: number_to_string_def digit_char_def)
  show ?thesis
    using h
      catBreeds_passes_limit_and_body
        [OF h, of example_config "mock_service (JArr [siamese, ragdoll])"]
      catBreeds_passes_limit_and_body
        [OF h30, of example_config "mock_service (JArr [siamese, ragdoll])"]
    by (simp add: d mock_service_def example_config_def breeds_listing_request_def)
qed

section \<open>The credential header\<close>

text \<open>
  C8. The one request each breed operation sends (\<open>catBreeds\<close>, \<open>catBreed\<close> and the
  seven field accessors) carries the header \<open>X-API-Key\<close> with the configured
  credential, and the one request \<open>randomImage\<close> sends carries no header at all.
\<close>

theorem api_key_header_on_breed_requests:
  "map headers (sent (catBreeds cfg net limit_arg)) = [[(''X-API-Key'', API_KEY cfg)]]
   \<and> map headers (sent (catBreed cfg net query_arg)) = [[(''X-API-Key'', API_KEY cfg)]]
   \<and> map headers (sent (catBreedDescription cfg net q)) = [[(''X-API-Key'', API_KEY cfg)]]
   \<and> map headers (sent (catBreedImage cfg net q)) = [[(''X-API-Key'', API_KEY cfg)]]
   \<and> map headers (sent (catBreedChildFriendliness cfg net q)) = [[(''X-API-Key'', API_KEY cfg)]]
   \<and> map headers (sent (breedLifeSpan cfg net q)) = [[(''X-API-Key'', API_KEY cfg)]]
   \<and> map headers (sent (breedTemperament cfg net q)) = [[(''X-API-Key'', API_KEY cfg)]]
   \<and> map headers (sent (breedIntelligence cfg net q)) = [[(''X-API-Key'', API_KEY cfg)]]
   \<and> map headers (sent (breedAffection cfg net q)) = [[(''X-API-Key'', API_KEY cfg)]]
   \<and> map headers (sent (randomImage cfg net)) = [[]]"
  by (simp add: accessor_defs catBreeds_def randomImage_def catch_console_error_def chain_defs
      Let_def split: sum.splits)

section \<open>The random image\<close>

text \<open>
  C9. \<open>randomImage\<close> is never rejected, whatever the transport does. In particular,
  when the transport fails, and when it answers with an empty array (so that reading
  \<open>url\<close> of the missing first element throws a \<open>TypeError\<close>), the catch handler takes
  the error, logs it, and the promise is fulfilled with \<open>undefined\<close>.
\<close>

theorem randomImage_never_rejects:
  "settled (randomImage cfg net) \<noteq> Inl reason
   \<and> (net (images_search_request cfg) = Inl err \<longrightarrow>
        settled (randomImage cfg net) = Inr JUndefined
      \<and> logged (randomImage cfg net) = [err])
   \<and> (net (images_search_request cfg) = Inr \<lparr>data = JArr []\<rparr> \<longrightarrow>
        settled (randomImage cfg net) = Inr JUndefined
      \<and> logged (randomImage cfg net) = [TypeError])"
  by (simp add: randomImage_def catch_console_error_def chain_defs images_search_request_def
      split: sum.splits)

theorem randomImage_never_rejects_witness:
  "failing_transport (AxiosError ''timeout'') (images_search_request example_config)
     = Inl (AxiosError ''timeout'')
   \<and> settled (randomImage example_config (failing_transport (AxiosError ''timeout'')))
     = Inr JUndefined
   \<and> logged (randomImage example_config (failing_transport (AxiosError ''timeout'')))
     = [AxiosError ''timeout'']
   \<and> mock_service (JArr []) (images_search_request example_config) = Inr \<lparr>data = JArr []\<rparr>
   \<and> settled (randomImage example_config (mock_service (JArr []))) = Inr JUndefined
   \<and> logged (randomImage example_config (mock_service (JArr []))) = [TypeError]"
  using
    randomImage_never_rejects
      [of example_config "failing_transport (AxiosError ''timeout'')" TypeError
          "AxiosError ''timeout''"]
    randomImage_never_rejects
      [of example_config "mock_service (JArr [])" TypeError TypeError]
  by (simp add: failing_transport_def mock_service_def)

section \<open>The test for "no match"\<close>

lemma falsy_first_not_found:
  assumes "net (breeds_search_request cfg q) = Inr \<lparr>data = JArr (v # rest)\<rparr>"
    and "\<not> truthy v"
  shows "settled (catBreed cfg net (Some q)) = Inl (Error ''No such breed found!'')
       \<and> settled (catBreedDescription cfg net q) = Inl (Error ''No such breed found!'')
       \<and> settled (catBreedImage cfg net q) = Inl (Error ''No such breed found!'')
       \<and> settled (catBreedChildFriendliness cfg net q) = Inl (Error ''No such breed found!'')
       \<and> settled (breedLifeSpan cfg net q) = Inl (Error ''No such breed found!'')
       \<and> settled (breedTemperament cfg net q) = Inl (Error ''No such breed found!'')
       \<and> settled (breedIntelligence cfg net q) = Inl (Error ''No such breed found!'')
       \<and> settled (breedAffection cfg net q) = Inl (Error ''No such breed found!'')"
  using assms by (simp add: accessor_defs chain_defs breeds_search_request_def)

text \<open>
  C10. The "no match" test looks at the truthiness of the first element, not at the
  length of the sequence: when the first element of the response is \<open>null\<close>,
  \<open>undefined\<close>, \<open>0\<close> or the empty string, each of the eight breed operations is
  rejected with \<open>No such breed found!\<close>, although the sequence is not empty and
  whatever follows the first element.
\<close>

theorem falsy_first_element_not_found:
  assumes "net (breeds_search_request cfg q) = Inr \<lparr>data = JArr (v # rest)\<rparr>"
    and "v = JNull \<or> v = JUndefined \<or> v = JNum 0 \<or> v = JStr []"
  shows "settled (catBreed cfg net (Some q)) = Inl (Error ''No such breed found!'')
       \<and> settled (catBreedDescription cfg net q) = Inl (Error ''No such breed found!'')
       \<and> settled (catBreedImage cfg net q) = Inl (Error ''No such breed found!'')
       \<and> settled (catBreedChildFriendliness cfg net q) = Inl (Error ''No such breed found!'')
       \<and> settled (breedLifeSpan cfg net q) = Inl (Error ''No such breed found!'')
       \<and> settled (breedTemperament cfg net q) = Inl (Error ''No such breed found!'')
       \<and> settled (breedIntelligence cfg net q) = Inl (Error ''No such breed found!'')
       \<and> settled (breedAffection cfg net q) = Inl (Error ''No such breed found!'')"
proof -
  from assms(2) have "\<not> truthy v"
    by (auto simp: falsy_iff)
  with assms(1) show ?thesis
    by (simp add: falsy_first_not_found)
qed

theorem falsy_first_element_not_found_witness:
  "mock_service (JArr [JNum 0, ragdoll]) (breeds_search_request example_config ''ragd'')
     = Inr \<lparr>data = JArr [JNum 0, ragdoll]\<rparr>
   \<and> (JNum 0 = JNull \<or> JNum 0 = JUndefined \<or> JNum 0 = JNum 0 \<or> JNum 0 = JStr [])
   \<and> settled (catBreed example_config (mock_service (JArr [JNum 0, ragdoll])) (Some ''ragd''))
     = Inl (Error ''No such breed found!'')
   \<and> settled (catBreedDescription example_config (mock_service (JArr [JNum 0, ragdoll])) ''ragd'')
     = Inl (Error ''No such breed found!'')
   \<and> settled (catBreedImage example_config (mock_service (JArr [JNum 0, ragdoll])) ''ragd'')
     = Inl (Error ''No such breed found!'')
   \<and> settled (catBreedChildFriendliness example_config (mock_service (JArr [JNum 0, ragdoll])) ''ragd'')
     = Inl (Error ''No such breed found!'')
   \<and> settled (breedLifeSpan example_config (mock_service (JArr [JNum 0, ragdoll])) ''ragd'')
     = Inl (Error ''No such breed found!'')
   \<and> settled (breedTemperament example_config (mock_service (JArr [JNum 0, ragdoll])) ''ragd'')
     = Inl (Error ''No such breed found!'')
   \<and> settled (breedIntelligence example_config (mock_service (JArr [JNum 0, ragdoll])) ''ragd'')
     = Inl (Error ''No such breed found!'')
   \<and> settled (breedAffection example_config (mock_service (JArr [JNum 0, ragdoll])) ''ragd'')
     = Inl (Error ''No such breed found!'')"
  using
    falsy_first_element_not_found
      [of "mock_service (JArr [JNum 0, ragdoll])" example_config "''ragd''" "JNum 0" "[ragdoll]"]
  by (simp add: mock_service_def)

end
